theory Spec2Isabelle
  imports Complex_Main
begin

section \<open>Python values\<close>

text \<open>
  The program is \<^verbatim>\<open>option_strategy_plotter_v2.py\<close>. Its numbers are Python floats.
  A finite float is modelled by the real number it stands for (rounding is not
  modelled); the three non-finite floats are kept apart, because a missing cell of a
  loaded table reaches \<^verbatim>\<open>float()\<close> as NaN and is accepted by it.
\<close>

datatype pyfloat = Fin real | PInf | NInf | NaN

fun fl_neg :: "pyfloat \<Rightarrow> pyfloat" where
  "fl_neg (Fin a) = Fin (- a)"
| "fl_neg PInf = NInf"
| "fl_neg NInf = PInf"
| "fl_neg NaN = NaN"

fun fl_add :: "pyfloat \<Rightarrow> pyfloat \<Rightarrow> pyfloat" where
  "fl_add (Fin a) (Fin b) = Fin (a + b)"
| "fl_add NaN y = NaN"
| "fl_add x NaN = NaN"
| "fl_add PInf NInf = NaN"
| "fl_add NInf PInf = NaN"
| "fl_add PInf y = PInf"
| "fl_add x PInf = PInf"
| "fl_add NInf y = NInf"
| "fl_add x NInf = NInf"

definition fl_sub :: "pyfloat \<Rightarrow> pyfloat \<Rightarrow> pyfloat" where
  "fl_sub x y = fl_add x (fl_neg y)"

text \<open>\<^verbatim>\<open>np.maximum\<close>: the larger of the two, NaN as soon as one of them is NaN.\<close>

fun fl_maximum :: "pyfloat \<Rightarrow> pyfloat \<Rightarrow> pyfloat" where
  "fl_maximum (Fin a) (Fin b) = Fin (max a b)"
| "fl_maximum NaN y = NaN"
| "fl_maximum x NaN = NaN"
| "fl_maximum PInf y = PInf"
| "fl_maximum x PInf = PInf"
| "fl_maximum NInf y = y"
| "fl_maximum x NInf = x"

text \<open>
  The values that reach the fields of a leg: the strings of the select boxes, and
  whatever a cell of a loaded table holds (a string, a number, a boolean; a missing
  cell is the float NaN). Integers are not kept apart from floats: the program only
  ever passes them to \<^verbatim>\<open>float()\<close> or compares them with a string.
\<close>

datatype pyval = Str string | Float pyfloat | Bool bool

datatype error =
    ValueError
  | KeyError string
  | IndexError
  | AttributeError
  | FileError

section \<open>Option and Stock\<close>

datatype Option =
  Option (position: pyval) (option_type: pyval) (strike: pyfloat) (premium: pyfloat)

datatype Stock =
  Stock (position: pyval) (entry_price: pyfloat)

text \<open>
  \<^verbatim>\<open>Option.payoff\<close> and \<^verbatim>\<open>Stock.payoff\<close> at one price. The two tests are on the
  leg, not on the price, so on an array of prices the same expression is evaluated at each
  element: the payoff over a grid is \<open>map\<close> of the payoff at one price.
\<close>

definition payoff :: "Option \<Rightarrow> pyfloat \<Rightarrow> pyfloat" where
  "payoff self S =
     (let intrinsic =
        (if option_type self = Str ''call'' then fl_maximum (fl_sub S (strike self)) (Fin 0)
         else fl_maximum (fl_sub (strike self) S) (Fin 0))
      in if Option.position self = Str ''long'' then fl_sub intrinsic (premium self)
         else fl_add (fl_neg intrinsic) (premium self))"

definition stock_payoff :: "Stock \<Rightarrow> pyfloat \<Rightarrow> pyfloat" where
  "stock_payoff self S =
     (if Stock.position self = Str ''buy'' then fl_sub S (entry_price self)
      else fl_sub (entry_price self) S)"


definition lower_of :: "char \<Rightarrow> char" where
  "lower_of c =
     (case map_of (zip ''ABCDEFGHIJKLMNOPQRSTUVWXYZ'' ''abcdefghijklmnopqrstuvwxyz'') c of
        None \<Rightarrow> c | Some l \<Rightarrow> l)"











section \<open>plot\_strategy\<close>








section \<open>The session and its handlers\<close>

text \<open>
  \<^verbatim>\<open>st.session_state\<close>: the two lists the handlers read and write. The portfolio, in
  the order of the remove control and of the plot, is the options followed by the stocks.
\<close>

record session =
  options :: "Option list"
  stocks :: "Stock list"


subsection \<open>Remove\<close>



subsection \<open>Tables and files\<close>

text \<open>
  A \<^verbatim>\<open>DataFrame\<close>: the column names and the rows, each row a list of cells in the order
  of the columns. \<^verbatim>\<open>row[name]\<close> raises KeyError when there is no such column.
\<close>

record dataframe =
  columns :: "string list"
  rows :: "pyval list list"

definition row_get :: "string list \<Rightarrow> pyval list \<Rightarrow> string \<Rightarrow> error + pyval" where
  "row_get cols row name =
     (case map_of (zip cols row) name of None \<Rightarrow> Inl (KeyError name) | Some v \<Rightarrow> Inr v)"

text \<open>
  The files, as the handlers see them: for each name what \<^verbatim>\<open>pd.read_csv\<close> gives (a
  table, or an error when the file is missing or is not a table), and whether
  \<^verbatim>\<open>to_csv\<close> can write it.
\<close>

record files =
  contents :: "string \<Rightarrow> error + dataframe"
  writable :: "string \<Rightarrow> bool"

text \<open>
  What \<^verbatim>\<open>read_csv\<close> reads back from a file \<^verbatim>\<open>to_csv\<close> wrote. The text of the file is
  not modelled. A string that is one of pandas' markers of a missing value, the empty
  string among them, comes back as NaN; every other cell comes back as it was written
  (a number up to the digits written for it). pandas also turns a column into numbers or
  booleans when every entry of it reads as one; this is not modelled, and does not
  happen to the columns Save writes from legs made by the select boxes.
\<close>

definition na_values :: "string list" where
  "na_values = ['''', ''#N/A'', ''#N/A N/A'', ''#NA'', ''-1.#IND'', ''-1.#QNAN'', ''-NaN'',
     ''-nan'', ''1.#IND'', ''1.#QNAN'', ''<NA>'', ''N/A'', ''NA'', ''NULL'', ''NaN'', ''None'',
     ''n/a'', ''nan'', ''null'']"

definition reread_cell :: "pyval \<Rightarrow> pyval" where
  "reread_cell v = (case v of Str s \<Rightarrow> (if s \<in> set na_values then Float NaN else Str s) | _ \<Rightarrow> v)"

definition csv_reread :: "dataframe \<Rightarrow> dataframe" where
  "csv_reread df = df\<lparr>rows := map (map reread_cell) (rows df)\<rparr>"

definition to_csv :: "dataframe \<Rightarrow> string \<Rightarrow> files \<Rightarrow> error + files" where
  "to_csv df name fs =
     (if writable fs name then Inr (fs\<lparr>contents := (contents fs)(name := Inr (csv_reread df))\<rparr>)
      else Inl FileError)"

subsection \<open>Save\<close>

abbreviation save_columns :: "string list" where
  "save_columns \<equiv> [''type'', ''position'', ''option_type'', ''strike_or_entry'', ''premium'']"

definition save_data :: "session \<Rightarrow> pyval list list" where
  "save_data st =
     map (\<lambda>opt. [Str ''option'', Option.position opt, option_type opt,
                 Float (strike opt), Float (premium opt)]) (options st)
     @ map (\<lambda>stk. [Str ''stock'', Stock.position stk, Str '''',
                   Float (entry_price stk), Float (Fin 0)]) (stocks st)"

definition save :: "files \<Rightarrow> string \<Rightarrow> session \<Rightarrow> error + files" where
  "save fs strategy_file st =
     (let df = \<lparr>columns = save_columns, rows = save_data st\<rparr>
      in to_csv df strategy_file fs)"

subsection \<open>float() of a cell\<close>

text \<open>
  \<^verbatim>\<open>float(s)\<close> for a string: blanks around it are dropped, then an optional sign, then
  \<^verbatim>\<open>inf\<close>, \<^verbatim>\<open>infinity\<close> or \<^verbatim>\<open>nan\<close> in any case, or a decimal number: digits (single
  underscores allowed between digits) with an optional point, and an optional exponent.
  Anything else is refused (ValueError). The value is the exact decimal value.
\<close>

definition is_space :: "char \<Rightarrow> bool" where
  "is_space c =
     (c \<in> set [CHR 0x09, CHR 0x0A, CHR 0x0B, CHR 0x0C, CHR 0x0D,
               CHR 0x1C, CHR 0x1D, CHR 0x1E, CHR 0x1F, CHR 0x20])"

definition strip :: "string \<Rightarrow> string" where
  "strip s = rev (dropWhile is_space (rev (dropWhile is_space s)))"

definition digit_val :: "char \<Rightarrow> nat option" where
  "digit_val c = map_of (zip ''0123456789'' [0..<10]) c"

text \<open>The longest prefix \<open>digit (["_"] digit)*\<close>, as its digits, and what follows it.\<close>

fun digitpart :: "string \<Rightarrow> nat list \<times> string" where
  "digitpart [] = ([], [])"
| "digitpart (c # cs) =
     (case digit_val c of
        None \<Rightarrow> ([], c # cs)
      | Some d \<Rightarrow>
          (case cs of
             u # c2 # cs2 \<Rightarrow>
               (if u = CHR ''_'' \<and> digit_val c2 \<noteq> None
                then (case digitpart (c2 # cs2) of (ds, r) \<Rightarrow> (d # ds, r))
                else (case digitpart cs of (ds, r) \<Rightarrow> (d # ds, r)))
           | _ \<Rightarrow> (case digitpart cs of (ds, r) \<Rightarrow> (d # ds, r))))"

definition digits_value :: "nat list \<Rightarrow> nat" where
  "digits_value ds = foldl (\<lambda>a d. 10 * a + d) 0 ds"

text \<open>\<open>number ::= [digitpart] "." digitpart | digitpart ["."]\<close>\<close>

definition number :: "string \<Rightarrow> (real \<times> string) option" where
  "number s =
     (case digitpart s of (ip, r) \<Rightarrow>
        (case r of
           p # r' \<Rightarrow>
             (if p = CHR ''.'' then
                (case digitpart r' of (fp, r'') \<Rightarrow>
                   (if ip = [] \<and> fp = [] then None
                    else Some (real (digits_value (ip @ fp)) / 10 ^ length fp, r'')))
              else if ip = [] then None else Some (real (digits_value ip), r))
         | [] \<Rightarrow> (if ip = [] then None else Some (real (digits_value ip), r))))"

text \<open>\<open>exponent ::= ("e" | "E") [sign] digitpart\<close>, applied to the number before it.\<close>

definition exponent :: "real \<Rightarrow> string \<Rightarrow> real option" where
  "exponent m s =
     (case s of
        [] \<Rightarrow> Some m
      | e # r \<Rightarrow>
          (if e = CHR ''e'' \<or> e = CHR ''E'' then
             (let neg = (case r of c # _ \<Rightarrow> c = CHR ''-'' | [] \<Rightarrow> False);
                  r' = (case r of c # cs \<Rightarrow> (if c = CHR ''+'' \<or> c = CHR ''-'' then cs else r)
                                | [] \<Rightarrow> r)
              in (case digitpart r' of (ds, rest) \<Rightarrow>
                    (if ds = [] \<or> rest \<noteq> [] then None
                     else Some (if neg then m / 10 ^ digits_value ds
                                else m * 10 ^ digits_value ds))))
           else None))"

definition absfloatvalue :: "string \<Rightarrow> pyfloat option" where
  "absfloatvalue s =
     (if map lower_of s = ''inf'' \<or> map lower_of s = ''infinity'' then Some PInf
      else if map lower_of s = ''nan'' then Some NaN
      else (case number s of
              None \<Rightarrow> None
            | Some (m, r) \<Rightarrow> (case exponent m r of None \<Rightarrow> None | Some v \<Rightarrow> Some (Fin v))))"

definition float_of_str :: "string \<Rightarrow> pyfloat option" where
  "float_of_str s =
     (case strip s of
        [] \<Rightarrow> None
      | c # cs \<Rightarrow>
          (if c = CHR ''-'' then map_option fl_neg (absfloatvalue cs)
           else if c = CHR ''+'' then absfloatvalue cs
           else absfloatvalue (c # cs)))"

text \<open>\<^verbatim>\<open>float(v)\<close> for a cell: a number is itself, a boolean is 1 or 0, a string is parsed.\<close>

definition float_py :: "pyval \<Rightarrow> error + pyfloat" where
  "float_py v =
     (case v of
        Float x \<Rightarrow> Inr x
      | Bool b \<Rightarrow> Inr (Fin (if b then 1 else 0))
      | Str s \<Rightarrow> (case float_of_str s of None \<Rightarrow> Inl ValueError | Some x \<Rightarrow> Inr x))"

subsection \<open>The constructors\<close>

text \<open>\<^verbatim>\<open>Option.__init__\<close> and \<^verbatim>\<open>Stock.__init__\<close>: the position and the type as given, the numbers through \<^verbatim>\<open>float()\<close>.\<close>

definition Option_init :: "pyval \<Rightarrow> pyval \<Rightarrow> pyval \<Rightarrow> pyval \<Rightarrow> error + Option" where
  "Option_init pos typ k p =
     (case float_py k of
        Inl e \<Rightarrow> Inl e
      | Inr k' \<Rightarrow>
          (case float_py p of
             Inl e \<Rightarrow> Inl e
           | Inr p' \<Rightarrow> Inr (Option pos typ k' p')))"

definition Stock_init :: "pyval \<Rightarrow> pyval \<Rightarrow> error + Stock" where
  "Stock_init pos ep =
     (case float_py ep of
        Inl e \<Rightarrow> Inl e
      | Inr ep' \<Rightarrow> Inr (Stock pos ep'))"

subsection \<open>Load\<close>

text \<open>
  The body of the loop over \<^verbatim>\<open>df.iterrows()\<close>: a row whose \<^verbatim>\<open>type\<close> is the string
  \<^verbatim>\<open>option\<close> is appended to the options, every other row to the stocks. The cells are
  looked up in the order the source names them, then the constructor runs.
\<close>

definition load_row :: "string list \<Rightarrow> session \<Rightarrow> pyval list \<Rightarrow> error + session" where
  "load_row cols st row =
     (case row_get cols row ''type'' of
        Inl e \<Rightarrow> Inl e
      | Inr t \<Rightarrow>
          (if t = Str ''option'' then
             (case row_get cols row ''position'' of Inl e \<Rightarrow> Inl e | Inr p \<Rightarrow>
             (case row_get cols row ''option_type'' of Inl e \<Rightarrow> Inl e | Inr ot \<Rightarrow>
             (case row_get cols row ''strike_or_entry'' of Inl e \<Rightarrow> Inl e | Inr k \<Rightarrow>
             (case row_get cols row ''premium'' of Inl e \<Rightarrow> Inl e | Inr pr \<Rightarrow>
             (case Option_init p ot k pr of Inl e \<Rightarrow> Inl e | Inr opt \<Rightarrow>
                Inr (st\<lparr>options := options st @ [opt]\<rparr>))))))
           else
             (case row_get cols row ''position'' of Inl e \<Rightarrow> Inl e | Inr p \<Rightarrow>
             (case row_get cols row ''strike_or_entry'' of Inl e \<Rightarrow> Inl e | Inr k \<Rightarrow>
             (case Stock_init p k of Inl e \<Rightarrow> Inl e | Inr stk \<Rightarrow>
                Inr (st\<lparr>stocks := stocks st @ [stk]\<rparr>))))))"

text \<open>
  The loop: it stops at the first row that raises, with the session as the rows before
  it left it. The second component is what the sidebar reports: \<open>None\<close> for
  \<^verbatim>\<open>Loaded!\<close>, the exception for \<^verbatim>\<open>Error loading file\<close>.
\<close>

fun load_rows :: "string list \<Rightarrow> session \<Rightarrow> pyval list list \<Rightarrow> session \<times> error option" where
  "load_rows cols st [] = (st, None)"
| "load_rows cols st (row # rs) =
     (case load_row cols st row of
        Inl e \<Rightarrow> (st, Some e)
      | Inr st' \<Rightarrow> load_rows cols st' rs)"

text \<open>
  The handler of the Load button: \<^verbatim>\<open>read_csv\<close>, then both lists are emptied, then the
  loop; every exception is caught and reported.
\<close>

definition load :: "files \<Rightarrow> string \<Rightarrow> session \<Rightarrow> session \<times> error option" where
  "load fs strategy_file st =
     (case contents fs strategy_file of
        Inl e \<Rightarrow> (st, Some e)
      | Inr df \<Rightarrow> load_rows (columns df) (st\<lparr>options := [], stocks := []\<rparr>) (rows df))"

section \<open>Legs of the entry form, and example files\<close>

text \<open>
  The legs the Add buttons can build: the position and the type come from the select
  boxes, the numbers from number inputs with minimum 0.
\<close>

definition ui_option :: "Option \<Rightarrow> bool" where
  "ui_option opt =
     (Option.position opt \<in> {Str ''long'', Str ''short''}
      \<and> option_type opt \<in> {Str ''call'', Str ''put''}
      \<and> (case strike opt of Fin k \<Rightarrow> 0 \<le> k | _ \<Rightarrow> False)
      \<and> (case premium opt of Fin p \<Rightarrow> 0 \<le> p | _ \<Rightarrow> False))"

definition ui_stock :: "Stock \<Rightarrow> bool" where
  "ui_stock stk =
     (Stock.position stk \<in> {Str ''buy'', Str ''sell''}
      \<and> (case entry_price stk of Fin e \<Rightarrow> 0 \<le> e | _ \<Rightarrow> False))"

text \<open>
  Two file systems for the examples: one where no file can be read and every name can be
  written, and one where a single name reads as a given table.
\<close>

definition empty_disk :: files where
  "empty_disk = \<lparr>contents = (\<lambda>name. Inl FileError), writable = (\<lambda>name. True)\<rparr>"

definition holding :: "string \<Rightarrow> dataframe \<Rightarrow> files" where
  "holding name df =
     \<lparr>contents = (\<lambda>n. if n = name then Inr df else Inl FileError), writable = (\<lambda>n. True)\<rparr>"

section \<open>Payoff of a single leg\<close>

lemma fl_add_commute: "fl_add x y = fl_add y x"
  by (cases x; cases y) simp_all

text \<open>
  C1. For every real price \<open>S\<close>, strike \<open>K\<close> and premium \<open>P\<close> the payoff of an option
  leg is intrinsic - P for a long leg and P - intrinsic for a short leg, where intrinsic
  is max (S - K) 0 for a call and max (K - S) 0 for a put. The function is defined at
  every real price (no sign condition on \<open>K\<close> and \<open>P\<close> is needed).
\<close>

theorem payoff_formula:
  "payoff (Option (Str ''long'') (Str ''call'') (Fin K) (Fin P)) (Fin S) = Fin (max (S - K) 0 - P)
   \<and> payoff (Option (Str ''long'') (Str ''put'') (Fin K) (Fin P)) (Fin S) = Fin (max (K - S) 0 - P)
   \<and> payoff (Option (Str ''short'') (Str ''call'') (Fin K) (Fin P)) (Fin S) = Fin (P - max (S - K) 0)
   \<and> payoff (Option (Str ''short'') (Str ''put'') (Fin K) (Fin P)) (Fin S) = Fin (P - max (K - S) 0)"
  by (simp add: payoff_def fl_sub_def)

text \<open>
  C10. Whatever string a leg holds as its position, the payoff is defined, and a string
  other than the expected one selects the opposite branch: an option whose position is
  not \<^verbatim>\<open>long\<close> pays premium - intrinsic, a stock whose position is not \<^verbatim>\<open>buy\<close>
  pays entry\_price - S.
\<close>

theorem fallback_direction:
  "(p \<noteq> ''long'' \<longrightarrow>
      payoff (Option (Str p) typ k pr) S =
        fl_sub pr (if typ = Str ''call'' then fl_maximum (fl_sub S k) (Fin 0)
                   else fl_maximum (fl_sub k S) (Fin 0)))
   \<and> (p \<noteq> ''long'' \<longrightarrow>
      payoff (Option (Str p) (Str ''call'') (Fin K) (Fin P)) (Fin s) = Fin (P - max (s - K) 0)
      \<and> payoff (Option (Str p) (Str ''put'') (Fin K) (Fin P)) (Fin s) = Fin (P - max (K - s) 0))
   \<and> (q \<noteq> ''buy'' \<longrightarrow> stock_payoff (Stock (Str q) e) S = fl_sub e S)
   \<and> (q \<noteq> ''buy'' \<longrightarrow> stock_payoff (Stock (Str q) (Fin E)) (Fin s) = Fin (E - s))"
  by (simp add: payoff_def stock_payoff_def fl_sub_def fl_add_commute)

theorem fallback_direction_witness:
  "''sideways'' \<noteq> ''long'' \<and> ''hold'' \<noteq> ''buy''
   \<and> payoff (Option (Str ''sideways'') (Str ''call'') (Fin 100) (Fin 5)) (Fin 120) = Fin (- 15)
   \<and> stock_payoff (Stock (Str ''hold'') (Fin 100)) (Fin 120) = Fin (- 20)"
  using fallback_direction[of "''sideways''" "Str ''call''" "Fin 100" "Fin 5" "Fin 120" 100 5 120 "''hold''" "Fin 100" 100]
  by (simp add: fl_sub_def)

section \<open>The net curve\<close>











section \<open>The grid\<close>











section \<open>Removing a leg\<close>







section \<open>Save, then load\<close>

lemma reread_ui_strings:
  "v \<in> {Str ''option'', Str ''stock'', Str ''long'', Str ''short'', Str ''call'', Str ''put'',
         Str ''buy'', Str ''sell''} \<Longrightarrow> reread_cell v = v"
  by (auto simp: reread_cell_def na_values_def)

lemma reread_Float: "reread_cell (Float x) = Float x"
  by (simp add: reread_cell_def)

lemma row_get_save_columns:
  "row_get save_columns [t, p, ot, k, pr] ''type'' = Inr t"
  "row_get save_columns [t, p, ot, k, pr] ''position'' = Inr p"
  "row_get save_columns [t, p, ot, k, pr] ''option_type'' = Inr ot"
  "row_get save_columns [t, p, ot, k, pr] ''strike_or_entry'' = Inr k"
  "row_get save_columns [t, p, ot, k, pr] ''premium'' = Inr pr"
  by (simp_all add: row_get_def)

lemma load_row_saved_option:
  assumes "ui_option opt"
  shows "load_row save_columns st
           (map reread_cell [Str ''option'', Option.position opt, option_type opt,
                             Float (strike opt), Float (premium opt)])
         = Inr (st\<lparr>options := options st @ [opt]\<rparr>)"
proof -
  from assms have "reread_cell (Option.position opt) = Option.position opt"
    "reread_cell (option_type opt) = option_type opt"
    by (auto simp: ui_option_def intro: reread_ui_strings)
  moreover have "reread_cell (Str ''option'') = Str ''option''" by (simp add: reread_ui_strings)
  ultimately show ?thesis
    by (simp add: load_row_def row_get_save_columns reread_Float Option_init_def float_py_def)
qed

lemma load_row_saved_stock:
  assumes "ui_stock stk"
  shows "load_row save_columns st
           (map reread_cell [Str ''stock'', Stock.position stk, Str '''',
                             Float (entry_price stk), Float (Fin 0)])
         = Inr (st\<lparr>stocks := stocks st @ [stk]\<rparr>)"
proof -
  from assms have "reread_cell (Stock.position stk) = Stock.position stk"
    by (auto simp: ui_stock_def intro: reread_ui_strings)
  moreover have "reread_cell (Str ''stock'') = Str ''stock''" by (simp add: reread_ui_strings)
  ultimately show ?thesis
    by (simp add: load_row_def row_get_save_columns reread_Float Stock_init_def float_py_def)
qed

lemma load_rows_append:
  "load_rows cols st rs1 = (st', None) \<Longrightarrow> load_rows cols st (rs1 @ rs2) = load_rows cols st' rs2"
  by (induction rs1 arbitrary: st) (auto split: sum.splits)

lemma load_rows_saved_options:
  "\<forall>opt \<in> set os. ui_option opt \<Longrightarrow>
   load_rows save_columns st
     (map (map reread_cell)
        (map (\<lambda>opt. [Str ''option'', Option.position opt, option_type opt,
                     Float (strike opt), Float (premium opt)]) os))
   = (st\<lparr>options := options st @ os\<rparr>, None)"
proof (induction os arbitrary: st)
  case Nil
  then show ?case by simp
next
  case (Cons opt os)
  then have "ui_option opt" by simp
  from load_row_saved_option[OF this, of st] Cons show ?case by simp
qed

lemma load_rows_saved_stocks:
  "\<forall>stk \<in> set ss. ui_stock stk \<Longrightarrow>
   load_rows save_columns st
     (map (map reread_cell)
        (map (\<lambda>stk. [Str ''stock'', Stock.position stk, Str '''',
                     Float (entry_price stk), Float (Fin 0)]) ss))
   = (st\<lparr>stocks := stocks st @ ss\<rparr>, None)"
proof (induction ss arbitrary: st)
  case Nil
  then show ?case by simp
next
  case (Cons stk ss)
  then have "ui_stock stk" by simp
  from load_row_saved_stock[OF this, of st] Cons show ?case by simp
qed

text \<open>
  C4. For every portfolio of legs the entry form can build (positions and types from the
  select boxes, finite non-negative numbers), saving to a writable file and loading that
  file gives back the same portfolio: the same options and the same stocks, in the same
  order, with the same position, type, strike, premium and entry price. Whatever the
  session held before the load is replaced.
\<close>

theorem save_load_roundtrip:
  "(\<forall>opt \<in> set (options st). ui_option opt) \<and> (\<forall>stk \<in> set (stocks st). ui_stock stk)
   \<and> writable fs name \<longrightarrow>
     (\<exists>fs'. save fs name st = Inr fs' \<and> load fs' name st0 = (st, None))"
proof
  assume a: "(\<forall>opt \<in> set (options st). ui_option opt) \<and> (\<forall>stk \<in> set (stocks st). ui_stock stk)
   \<and> writable fs name"
  let ?df = "\<lparr>columns = save_columns, rows = save_data st\<rparr>"
  let ?fs' = "fs\<lparr>contents := (contents fs)(name := Inr (csv_reread ?df))\<rparr>"
  let ?e = "st0\<lparr>options := [], stocks := []\<rparr>"
  have s: "save fs name st = Inr ?fs'" using a by (simp add: save_def to_csv_def)
  have o: "load_rows save_columns ?e
     (map (map reread_cell)
        (map (\<lambda>opt. [Str ''option'', Option.position opt, option_type opt,
                     Float (strike opt), Float (premium opt)]) (options st)))
     = (?e\<lparr>options := options ?e @ options st\<rparr>, None)"
    using a by (intro load_rows_saved_options) simp
  have "load fs' name st0 = (st, None)" if "fs' = ?fs'" for fs'
  proof -
    have "load fs' name st0 = load_rows save_columns ?e (map (map reread_cell) (save_data st))"
      using that by (simp add: load_def csv_reread_def)
    also have "\<dots> = load_rows save_columns (?e\<lparr>options := options ?e @ options st\<rparr>)
        (map (map reread_cell)
          (map (\<lambda>stk. [Str ''stock'', Stock.position stk, Str '''',
                     Float (entry_price stk), Float (Fin 0)]) (stocks st)))"
      unfolding save_data_def map_append by (rule load_rows_append[OF o])
    also have "\<dots> = (st, None)"
      using a by (subst load_rows_saved_stocks) simp_all
    finally show ?thesis .
  qed
  with s show "\<exists>fs'. save fs name st = Inr fs' \<and> load fs' name st0 = (st, None)" by blast
qed

theorem save_load_roundtrip_witness:
  "ui_option (Option (Str ''long'') (Str ''call'') (Fin 100) (Fin 5))
   \<and> ui_stock (Stock (Str ''sell'') (Fin 50))
   \<and> writable empty_disk ''my_strategy.csv''
   \<and> (\<exists>fs'. save empty_disk ''my_strategy.csv''
                \<lparr>options = [Option (Str ''long'') (Str ''call'') (Fin 100) (Fin 5)],
                 stocks = [Stock (Str ''sell'') (Fin 50)]\<rparr> = Inr fs'
            \<and> load fs' ''my_strategy.csv'' \<lparr>options = [], stocks = []\<rparr>
                = (\<lparr>options = [Option (Str ''long'') (Str ''call'') (Fin 100) (Fin 5)],
                    stocks = [Stock (Str ''sell'') (Fin 50)]\<rparr>, None))"
  using save_load_roundtrip[of "\<lparr>options = [Option (Str ''long'') (Str ''call'') (Fin 100) (Fin 5)],
                 stocks = [Stock (Str ''sell'') (Fin 50)]\<rparr>" empty_disk "''my_strategy.csv''"
                 "\<lparr>options = [], stocks = []\<rparr>"]
  by (simp add: ui_option_def ui_stock_def empty_disk_def)

section \<open>Loading arbitrary rows\<close>



lemma float_of_str_abc: "float_of_str ''abc'' = None"
  by code_simp

lemma float_of_str_100: "float_of_str ''100.0'' = Some (Fin 100)"
  by code_simp




section \<open>A load that fails\<close>

text \<open>
  C6, as the claim states it, fails: the file below is read, its first row is loaded and
  its second row is refused. The failure is reported, but the session no longer holds
  the stock it held before: it holds the option of the first row.
\<close>

theorem failed_load_counterexample:
  "load (holding ''my_strategy.csv''
           \<lparr>columns = [''type'', ''position'', ''option_type'', ''strike_or_entry'', ''premium''],
            rows = [[Str ''option'', Str ''long'', Str ''call'', Str ''100.0'', Float (Fin 5)],
                    [Str ''option'', Str ''short'', Str ''call'', Str ''abc'', Float (Fin 2)]]\<rparr>)
        ''my_strategy.csv'' \<lparr>options = [], stocks = [Stock (Str ''buy'') (Fin 50)]\<rparr>
     = (\<lparr>options = [Option (Str ''long'') (Str ''call'') (Fin 100) (Fin 5)], stocks = []\<rparr>,
        Some ValueError)"
  by (simp add: load_def holding_def load_row_def row_get_def Option_init_def float_py_def
      float_of_str_abc float_of_str_100)

text \<open>
  C6, amended. When reading the file fails, the load leaves the session exactly as it was
  and reports the failure. When the file is read and a row fails, the failure is reported
  as well, and the session is then the one built from the rows before the failing row,
  starting from two empty lists.
\<close>

theorem load_failure:
  "(contents fs name = Inl e \<longrightarrow> load fs name st = (st, Some e))
   \<and> (contents fs name = Inr df \<and> rows df = pre @ row # post
       \<and> load_rows (columns df) \<lparr>options = [], stocks = []\<rparr> pre = (st', None)
       \<and> load_row (columns df) st' row = Inl e \<longrightarrow>
         load fs name st = (st', Some e))"
proof (intro conjI impI)
  assume "contents fs name = Inl e"
  then show "load fs name st = (st, Some e)" by (simp add: load_def)
next
  assume a: "contents fs name = Inr df \<and> rows df = pre @ row # post
       \<and> load_rows (columns df) \<lparr>options = [], stocks = []\<rparr> pre = (st', None)
       \<and> load_row (columns df) st' row = Inl e"
  have e: "st\<lparr>options := [], stocks := []\<rparr> = \<lparr>options = [], stocks = []\<rparr>" by simp
  from a have "load fs name st = load_rows (columns df) (st\<lparr>options := [], stocks := []\<rparr>) (pre @ row # post)"
    by (simp add: load_def)
  also have "\<dots> = load_rows (columns df) \<lparr>options = [], stocks = []\<rparr> (pre @ row # post)"
    by (simp only: e)
  also have "\<dots> = load_rows (columns df) st' (row # post)"
    using a by (intro load_rows_append) simp
  also have "\<dots> = (st', Some e)" using a by simp
  finally show "load fs name st = (st', Some e)" .
qed

theorem load_failure_witness:
  "contents empty_disk ''my_strategy.csv'' = Inl FileError
   \<and> load empty_disk ''my_strategy.csv'' \<lparr>options = [], stocks = [Stock (Str ''buy'') (Fin 50)]\<rparr>
       = (\<lparr>options = [], stocks = [Stock (Str ''buy'') (Fin 50)]\<rparr>, Some FileError)
   \<and> load_rows save_columns \<lparr>options = [], stocks = []\<rparr>
         [[Str ''option'', Str ''long'', Str ''call'', Str ''100.0'', Float (Fin 5)]]
       = (\<lparr>options = [Option (Str ''long'') (Str ''call'') (Fin 100) (Fin 5)], stocks = []\<rparr>, None)
   \<and> load_row save_columns
         \<lparr>options = [Option (Str ''long'') (Str ''call'') (Fin 100) (Fin 5)], stocks = []\<rparr>
         [Str ''option'', Str ''short'', Str ''call'', Str ''abc'', Float (Fin 2)]
       = Inl ValueError
   \<and> load (holding ''my_strategy.csv''
             \<lparr>columns = save_columns,
              rows = [[Str ''option'', Str ''long'', Str ''call'', Str ''100.0'', Float (Fin 5)],
                      [Str ''option'', Str ''short'', Str ''call'', Str ''abc'', Float (Fin 2)]]\<rparr>)
          ''my_strategy.csv'' \<lparr>options = [], stocks = [Stock (Str ''buy'') (Fin 50)]\<rparr>
       = (\<lparr>options = [Option (Str ''long'') (Str ''call'') (Fin 100) (Fin 5)], stocks = []\<rparr>,
          Some ValueError)"
proof -
  let ?st = "\<lparr>options = [], stocks = [Stock (Str ''buy'') (Fin 50)]\<rparr>"
  let ?r1 = "[Str ''option'', Str ''long'', Str ''call'', Str ''100.0'', Float (Fin 5)]"
  let ?r2 = "[Str ''option'', Str ''short'', Str ''call'', Str ''abc'', Float (Fin 2)]"
  let ?df = "\<lparr>columns = save_columns, rows = [?r1, ?r2]\<rparr>"
  let ?st1 = "\<lparr>options = [Option (Str ''long'') (Str ''call'') (Fin 100) (Fin 5)], stocks = []\<rparr>"
  have h1: "contents empty_disk ''my_strategy.csv'' = Inl FileError" by (simp add: empty_disk_def)
  have h2: "contents (holding ''my_strategy.csv'' ?df) ''my_strategy.csv'' = Inr ?df"
    by (simp add: holding_def)
  have h3: "rows ?df = [?r1] @ ?r2 # []" by simp
  have h4: "load_rows (columns ?df) \<lparr>options = [], stocks = []\<rparr> [?r1] = (?st1, None)"
    by (simp add: load_row_def row_get_def Option_init_def float_py_def float_of_str_100)
  have h5: "load_row (columns ?df) ?st1 ?r2 = Inl ValueError"
    by (simp add: load_row_def row_get_def Option_init_def float_py_def float_of_str_abc)
  from load_failure[of empty_disk "''my_strategy.csv''" FileError ?st] h1
  have a: "load empty_disk ''my_strategy.csv'' ?st = (?st, Some FileError)" by blast
  from load_failure[of "holding ''my_strategy.csv'' ?df" "''my_strategy.csv''" ValueError ?st
      ?df "[?r1]" ?r2 "[]" ?st1] h2 h3 h4 h5
  have b: "load (holding ''my_strategy.csv'' ?df) ''my_strategy.csv'' ?st = (?st1, Some ValueError)"
    by blast
  from h1 a h4 h5 b show ?thesis by simp
qed

end
